theory Spec2Isabelle
  imports Main
begin

section \<open>Python values and builtins used by the web server\<close>

text \<open>
  Text is a \<^typ>\<open>string\<close>; each \<^typ>\<open>char\<close> stands for one code point below 256.
  Form values holding code points beyond that range are outside this development.
\<close>

subsection \<open>Exceptions\<close>

text \<open>
  \<^verbatim>\<open>handle_exception\<close> observes a caught exception in three ways only:
  \<^verbatim>\<open>isinstance(ex, HTTPException)\<close> with \<^verbatim>\<open>ex.get_description()\<close>,
  \<^verbatim>\<open>isinstance(ex, ResourceExhausted)\<close> with \<^verbatim>\<open>ex.message\<close>, and \<^verbatim>\<open>str(ex)\<close>.
  An exception object is the record of these observations; a field that exists only for
  instances of a class is \<open>None\<close> for every other exception. Nothing stops both class
  tests from holding of one object, so both fields may be \<open>Some\<close>.
  Only instances of \<^verbatim>\<open>Exception\<close> are values of this type.
\<close>

record py_exception =
  get_description :: "string option"
  message :: "string option"
  str :: string

definition isinstance_HTTPException :: "py_exception \<Rightarrow> bool" where
  "isinstance_HTTPException ex = (get_description ex \<noteq> None)"

definition isinstance_ResourceExhausted :: "py_exception \<Rightarrow> bool" where
  "isinstance_ResourceExhausted ex = (message ex \<noteq> None)"

text \<open>A builtin exception (neither of the two classes above) with the given text.\<close>

definition builtin_exception :: "string \<Rightarrow> py_exception" where
  "builtin_exception txt = \<lparr>get_description = None, message = None, str = txt\<rparr>"

definition IndexError :: py_exception where
  "IndexError = builtin_exception ''list index out of range''"

text \<open>The \<^verbatim>\<open>IndexError\<close> for an index that does not fit a signed 64-bit word.\<close>

definition IndexError_cannot_fit :: py_exception where
  "IndexError_cannot_fit =
     builtin_exception
       (''cannot fit '' @ [CHR 0x27] @ ''int'' @ [CHR 0x27] @ '' into an index-sized integer'')"

subsection \<open>\<^verbatim>\<open>repr\<close> of a text\<close>

definition hex_digit :: "nat \<Rightarrow> char" where
  "hex_digit n = (''0123456789abcdef'' ! (n mod 16))"

definition printable :: "char \<Rightarrow> bool" where
  "printable c = (let n = (of_char c :: nat) in
     (32 \<le> n \<and> n < 127) \<or> (161 \<le> n \<and> n \<noteq> 173))"

definition repr_char :: "char \<Rightarrow> char \<Rightarrow> string" where
  "repr_char quote c =
     (if c = quote \<or> c = CHR 0x5C then [CHR 0x5C, c]
      else if c = CHR 0x09 then [CHR 0x5C, CHR ''t'']
      else if c = CHR 0x0A then [CHR 0x5C, CHR ''n'']
      else if c = CHR 0x0D then [CHR 0x5C, CHR ''r'']
      else if printable c then [c]
      else [CHR 0x5C, CHR ''x'', hex_digit (of_char c div 16), hex_digit (of_char c)])"

definition repr :: "string \<Rightarrow> string" where
  "repr s =
     (let quote = (if CHR 0x27 \<in> set s \<and> CHR 0x22 \<notin> set s then CHR 0x22 else CHR 0x27)
      in [quote] @ concat (map (repr_char quote) s) @ [quote])"

subsection \<open>\<^verbatim>\<open>int(text)\<close>\<close>

text \<open>
  CPython's conversion of a text to an integer in base 10: leading white space, an
  optional sign, decimal digits with single underscores between them, trailing white
  space. More than 4300 digits are refused (the default limit since 3.11).
\<close>

definition is_space :: "char \<Rightarrow> bool" where
  "is_space c = (of_char c \<in> set [9, 10, 11, 12, 13, 32, 133, 160 :: nat])"

definition is_digit :: "char \<Rightarrow> bool" where
  "is_digit c = (48 \<le> (of_char c :: nat) \<and> (of_char c :: nat) \<le> 57)"

definition digit_value :: "char \<Rightarrow> nat" where
  "digit_value c = of_char c - 48"

fun str_of_nat :: "nat \<Rightarrow> string" where
  "str_of_nat n =
     (if n < 10 then [char_of (48 + n)]
      else str_of_nat (n div 10) @ [char_of (48 + n mod 10)])"

declare str_of_nat.simps [simp del]

text \<open>
  The digit scan: \<open>prev\<close> is the character read last, \<open>digits\<close> the number of digits
  read, \<open>acc\<close> their value. It stops at the first character that is neither a digit nor
  an underscore and returns the rest of the text.
\<close>

fun scan_digits :: "string \<Rightarrow> char \<Rightarrow> nat \<Rightarrow> nat \<Rightarrow> (nat \<times> nat \<times> string) option" where
  "scan_digits [] prev digits acc =
     (if prev = CHR ''_'' then None else Some (digits, acc, []))"
| "scan_digits (c # cs) prev digits acc =
     (if c = CHR ''_'' then
        (if prev = CHR ''_'' then None else scan_digits cs c digits acc)
      else if is_digit c then scan_digits cs c (Suc digits) (acc * 10 + digit_value c)
      else if prev = CHR ''_'' then None
      else Some (digits, acc, c # cs))"

definition invalid_literal :: "string \<Rightarrow> py_exception" where
  "invalid_literal s =
     builtin_exception (''invalid literal for int() with base 10: '' @ take 200 (repr s))"

definition exceeds_limit :: "nat \<Rightarrow> py_exception" where
  "exceeds_limit digits =
     builtin_exception
       (''Exceeds the limit (4300 digits) for integer string conversion: value has ''
        @ str_of_nat digits
        @ '' digits; use sys.set_int_max_str_digits() to increase the limit'')"

definition py_int :: "string \<Rightarrow> py_exception + int" where
  "py_int s =
     (let s1 = dropWhile is_space s;
          (sign, s2) = (case s1 of
                          c # r \<Rightarrow> if c = CHR ''+'' then (1, r)
                                   else if c = CHR ''-'' then (- 1, r)
                                   else (1, s1)
                        | [] \<Rightarrow> (1 :: int, s1))
      in if s2 \<noteq> [] \<and> hd s2 = CHR ''_'' then Inl (invalid_literal s)
         else (case scan_digits s2 (CHR 0x00) 0 0 of
                 None \<Rightarrow> Inl (invalid_literal s)
               | Some (digits, v, rest) \<Rightarrow>
                   if digits = 0 then Inl (invalid_literal s)
                   else if 4300 < digits then Inl (exceeds_limit digits)
                   else if dropWhile is_space rest \<noteq> [] then Inl (invalid_literal s)
                   else Inr (sign * int v)))"

subsection \<open>List indexing\<close>

text \<open>
  \<^verbatim>\<open>xs[i]\<close> on a list: the size is added to a negative \<open>i\<close> once, and the result must
  then be a position of the list, or \<^verbatim>\<open>IndexError\<close> is raised. The text of the error
  is another one when \<open>i\<close> does not fit a signed 64-bit word. CPython tests that first;
  a list there has fewer than \<open>2\<^sup>6\<^sup>3\<close> entries, so such an \<open>i\<close> is never a position and
  the order of the two tests cannot be observed.
\<close>

definition getitem :: "'a list \<Rightarrow> int \<Rightarrow> py_exception + 'a" where
  "getitem xs i =
     (let size = int (length xs);
          k = (if i < 0 then i + size else i)
      in if 0 \<le> k \<and> k < size then Inr (xs ! nat k)
         else if i < - (2 ^ 63) \<or> 2 ^ 63 \<le> i then Inl IndexError_cannot_fit
         else Inl IndexError)"

section \<open>The web server\<close>

subsection \<open>Module constants\<close>

text \<open>
  Modelled from the spec: the module \<^verbatim>\<open>consts\<close> is not part of the sources. Its values
  are parameters. An entry of \<^verbatim>\<open>CUSTOM_UI_DATASTORE_IDS\<close> maps a display name to a backend
  engine identifier; the server reads the keys \<^verbatim>\<open>"name"\<close> and \<^verbatim>\<open>"engine_id"\<close>.
\<close>

record datastore =
  name :: string
  engine_id :: string

record module_consts =
  CUSTOM_UI_DATASTORE_IDS :: "datastore list"
  LOCATION :: string
  PROJECT_ID :: string
  SUMMARY_MODELS :: "string list"
  VALID_LANGUAGES :: "string list"

record form_options =
  language_list :: "string list"
  default_language :: string

record nav_link =
  link :: string
  name :: string
  icon :: string

definition NAV_LINKS :: "nav_link list" where
  "NAV_LINKS =
     [\<lparr>link = ''/'', name = ''Widgets'', icon = ''widgets''\<rparr>,
      \<lparr>link = ''/search'', name = ''Custom UI'', icon = ''build''\<rparr>,
      \<lparr>link = ''https://github.com/GoogleCloudPlatform/generative-ai/tree/main/search/web-app'',
       name = ''Source Code'', icon = ''code''\<rparr>]"

text \<open>
  The module's own globals, computed once when it is loaded. \<^verbatim>\<open>VALID_LANGUAGES[0]\<close>
  raises when the list is empty, and then there is no server.
\<close>

record globals = module_consts +
  FORM_OPTIONS :: form_options
  CUSTOM_UI_SEARCH_ENGINES :: "string list"

definition load_module :: "module_consts \<Rightarrow> py_exception + globals" where
  "load_module c =
     (case getitem (VALID_LANGUAGES c) 0 of
        Inl ex \<Rightarrow> Inl ex
      | Inr language \<Rightarrow>
          Inr (module_consts.extend c
                 \<lparr>FORM_OPTIONS = \<lparr>language_list = VALID_LANGUAGES c, default_language = language\<rparr>,
                  CUSTOM_UI_SEARCH_ENGINES = map datastore.name (CUSTOM_UI_DATASTORE_IDS c)\<rparr>))"

subsection \<open>The request form\<close>

type_synonym form = "string \<rightharpoonup> string"

text \<open>
  The submitted form, already parsed by the framework: a field is absent or has a text.
  \<^verbatim>\<open>request.form.get(key, default)\<close> is \<open>form_get\<close>; without a default,
  \<^verbatim>\<open>request.form.get(key)\<close> is the map itself, \<open>None\<close> for a missing field.
\<close>

definition form_get :: "form \<Rightarrow> string \<Rightarrow> string \<Rightarrow> string" where
  "form_get f key dflt = (case f key of None \<Rightarrow> dflt | Some v \<Rightarrow> v)"

subsection \<open>The rendering boundary\<close>

text \<open>
  \<^verbatim>\<open>render_template\<close> is external. A response is the call made to it: the template's
  name and the keyword arguments, \<open>None\<close> for a keyword the call does not pass. The
  values the search returns are opaque, of type \<open>'v\<close>.
\<close>

record 'v kwargs =
  title :: "string option"
  form_options :: "form_options option"
  nav_links :: "nav_link list option"
  search_engines :: "string list option"
  summary_models :: "string list option"
  message_error :: "string option"
  message_success :: "string option"
  results :: "'v option"
  summary :: "'v option"
  request_url :: "'v option"
  raw_request :: "'v option"
  raw_response :: "'v option"

definition no_kwargs :: "'v kwargs" where
  "no_kwargs =
     \<lparr>title = None, form_options = None, nav_links = None, search_engines = None,
      summary_models = None, message_error = None, message_success = None,
      results = None, summary = None, request_url = None, raw_request = None,
      raw_response = None\<rparr>"

type_synonym 'v response = "string \<times> 'v kwargs"

definition render_template :: "string \<Rightarrow> 'v kwargs \<Rightarrow> 'v response" where
  "render_template template kw = (template, kw)"

subsection \<open>The external search capability\<close>

text \<open>
  \<^verbatim>\<open>search_enterprise_search\<close> (module \<^verbatim>\<open>genappbuilder_utils\<close>) is external: a parameter.
  It is called with six keyword arguments and either returns five values or raises. It
  may depend on and change the state \<open>'w\<close> of the world outside the server.
\<close>

record search_args =
  project_id :: string
  location :: string
  engine_id :: string
  search_query :: string
  summary_model :: "string option"
  summary_preamble :: "string option"

type_synonym ('w, 'v) capability =
  "search_args \<Rightarrow> 'w \<Rightarrow> (py_exception + 'v \<times> 'v \<times> 'v \<times> 'v \<times> 'v) \<times> 'w"

text \<open>
  What a request leaves behind: the state of the world, and the calls made to the
  capability, oldest first.
\<close>

record 'w io =
  world :: 'w
  calls :: "search_args list"

definition call_capability ::
  "('w, 'v) capability \<Rightarrow> search_args \<Rightarrow> 'w io
     \<Rightarrow> (py_exception + 'v \<times> 'v \<times> 'v \<times> 'v \<times> 'v) \<times> 'w io" where
  "call_capability search_enterprise_search args s =
     (let (r, w) = search_enterprise_search args (world s)
      in (r, \<lparr>world = w, calls = calls s @ [args]\<rparr>))"

subsection \<open>\<^verbatim>\<open>search_genappbuilder\<close>\<close>

text \<open>
  A local variable of the source named like a keyword argument is primed. The keyword
  arguments of the call are evaluated in the order written: \<^verbatim>\<open>int(search_engine)\<close>, then
  the indexing, and only then the call.
\<close>

definition search_genappbuilder ::
  "globals \<Rightarrow> ('w, 'v) capability \<Rightarrow> form \<Rightarrow> 'w io \<Rightarrow> (py_exception + 'v response) \<times> 'w io" where
  "search_genappbuilder g search_enterprise_search request_form s =
     (let search_query' = form_get request_form ''search_query'' '''' in
      if search_query' = [] then
        (Inr (render_template ''search.html''
               (no_kwargs\<lparr>title := Some (nav_link.name (NAV_LINKS ! 1)),
                           nav_links := Some NAV_LINKS,
                           search_engines := Some (CUSTOM_UI_SEARCH_ENGINES g),
                           summary_models := Some (SUMMARY_MODELS g),
                           message_error := Some ''No query provided''\<rparr>)), s)
      else
      let search_engine' = form_get request_form ''search_engine'' '''' in
      if search_engine' = [] then
        (Inr (render_template ''search.html''
               (no_kwargs\<lparr>title := Some (nav_link.name (NAV_LINKS ! 1)),
                           nav_links := Some NAV_LINKS,
                           search_engines := Some (CUSTOM_UI_SEARCH_ENGINES g),
                           summary_models := Some (SUMMARY_MODELS g),
                           message_error := Some ''No search engine selected''\<rparr>)), s)
      else
      let summary_model' = request_form ''summary_model'';
          summary_preamble' = request_form ''summary_preamble'' in
      case py_int search_engine' of
        Inl ex \<Rightarrow> (Inl ex, s)
      | Inr i \<Rightarrow>
      (case getitem (CUSTOM_UI_DATASTORE_IDS g) i of
        Inl ex \<Rightarrow> (Inl ex, s)
      | Inr d \<Rightarrow>
      (case call_capability search_enterprise_search
              \<lparr>project_id = PROJECT_ID g,
               location = LOCATION g,
               engine_id = datastore.engine_id d,
               search_query = search_query',
               summary_model = summary_model',
               summary_preamble = summary_preamble'\<rparr> s of
        (Inl ex, s') \<Rightarrow> (Inl ex, s')
      | (Inr (results', summary', request_url', raw_request', raw_response'), s') \<Rightarrow>
        (Inr (render_template ''search.html''
               (no_kwargs\<lparr>title := Some (nav_link.name (NAV_LINKS ! 1)),
                           nav_links := Some NAV_LINKS,
                           search_engines := Some (CUSTOM_UI_SEARCH_ENGINES g),
                           summary_models := Some (SUMMARY_MODELS g),
                           message_success := Some search_query',
                           results := Some results',
                           summary := Some summary',
                           request_url := Some request_url',
                           raw_request := Some raw_request',
                           raw_response := Some raw_response'\<rparr>)), s'))))"

subsection \<open>\<^verbatim>\<open>handle_exception\<close>\<close>

text \<open>
  The chain of tests of \<^verbatim>\<open>handle_exception\<close>, as a function of the value the local
  variable \<^verbatim>\<open>message_error\<close> has before it, to the value it has after it.
\<close>

definition assign_message_error :: "py_exception \<Rightarrow> string \<Rightarrow> string" where
  "assign_message_error ex message_error' =
     (if isinstance_HTTPException ex then the (get_description ex)
      else if isinstance_ResourceExhausted ex then the (message ex)
      else str ex)"

definition handle_exception :: "globals \<Rightarrow> py_exception \<Rightarrow> 'v response" where
  "handle_exception g ex =
     (let message_error' = ''An Unknown Error Occurred'';
          message_error' = assign_message_error ex message_error'
      in render_template ''search.html''
           (no_kwargs\<lparr>title := Some (nav_link.name (NAV_LINKS ! 1)),
                       form_options := Some (FORM_OPTIONS g),
                       nav_links := Some NAV_LINKS,
                       search_engines := Some (CUSTOM_UI_SEARCH_ENGINES g),
                       summary_models := Some (SUMMARY_MODELS g),
                       message_error := Some message_error'\<rparr>))"

subsection \<open>One request\<close>

text \<open>
  The framework runs the view registered for the route; \<^verbatim>\<open>@app.errorhandler(Exception)\<close>
  makes it call \<^verbatim>\<open>handle_exception\<close> on an exception the view raises and answer with
  what that returns. This is the operation the specification calls \<^verbatim>\<open>handle_search\<close>.
\<close>

definition handle_search ::
  "globals \<Rightarrow> ('w, 'v) capability \<Rightarrow> form \<Rightarrow> 'w io \<Rightarrow> 'v response \<times> 'w io" where
  "handle_search g search_enterprise_search request_form s =
     (case search_genappbuilder g search_enterprise_search request_form s of
        (Inl ex, s') \<Rightarrow> (handle_exception g ex, s')
      | (Inr response, s') \<Rightarrow> (response, s'))"

section \<open>Outcomes\<close>

text \<open>
  The two outcomes of the specification, read off a response: a failure carries
  \<^verbatim>\<open>message_error\<close> and none of the success keywords; a success carries the query as
  \<^verbatim>\<open>message_success\<close>, the five values of the search, and no \<^verbatim>\<open>message_error\<close>.
\<close>

definition Failure :: "string \<Rightarrow> 'v response \<Rightarrow> bool" where
  "Failure error_message r =
     (message_error (snd r) = Some error_message \<and> message_success (snd r) = None \<and>
      results (snd r) = None \<and> summary (snd r) = None \<and> request_url (snd r) = None \<and>
      raw_request (snd r) = None \<and> raw_response (snd r) = None)"

definition Success :: "string \<Rightarrow> 'v \<times> 'v \<times> 'v \<times> 'v \<times> 'v \<Rightarrow> 'v response \<Rightarrow> bool" where
  "Success query returned r =
     (message_error (snd r) = None \<and> message_success (snd r) = Some query \<and>
      (case returned of (a, b, c, d, e) \<Rightarrow>
         results (snd r) = Some a \<and> summary (snd r) = Some b \<and> request_url (snd r) = Some c \<and>
         raw_request (snd r) = Some d \<and> raw_response (snd r) = Some e))"

text \<open>
  The message of a failure as the specification derives it from a caught exception,
  the first that applies: (a) the HTTP description, if the exception carries one;
  (b) else its quota message, if it carries one; (c) else its text; (d) the fixed text
  ``An Unknown Error Occurred'' if no information is available at all, that is, the
  exception carries neither field and its text is empty. This follows the
  specification's words, not the code; \<open>assign_message_error\<close> is the code.
\<close>

definition specified_message :: "py_exception \<Rightarrow> string" where
  "specified_message ex =
     (case get_description ex of
        Some d \<Rightarrow> d
      | None \<Rightarrow>
          (case message ex of
             Some t \<Rightarrow> t
           | None \<Rightarrow> if str ex \<noteq> [] then str ex else ''An Unknown Error Occurred''))"

text \<open>A capability is deterministic when what it answers depends on its arguments only.\<close>

definition deterministic :: "('w, 'v) capability \<Rightarrow> bool" where
  "deterministic search_enterprise_search =
     (\<forall>args w w'. fst (search_enterprise_search args w) = fst (search_enterprise_search args w'))"

text \<open>
  An integer is a valid Python index of a list of length \<open>n\<close> when it lies in
  \<open>[-n, n)\<close>, and a zero-based index when it lies in \<open>[0, n)\<close>.
\<close>

definition python_index :: "'a list \<Rightarrow> int \<Rightarrow> bool" where
  "python_index xs i = (- int (length xs) \<le> i \<and> i < int (length xs))"

definition zero_based_index :: "'a list \<Rightarrow> int \<Rightarrow> bool" where
  "zero_based_index xs i = (0 \<le> i \<and> i < int (length xs))"

section \<open>Example values\<close>

definition example_globals :: globals where
  "example_globals =
     \<lparr>CUSTOM_UI_DATASTORE_IDS =
        [\<lparr>datastore.name = ''Docs'', engine_id = ''docs-engine''\<rparr>,
         \<lparr>datastore.name = ''Blog'', engine_id = ''blog-engine''\<rparr>],
      LOCATION = ''global'',
      PROJECT_ID = ''my-project'',
      SUMMARY_MODELS = [''stable''],
      VALID_LANGUAGES = [''en''],
      FORM_OPTIONS = \<lparr>language_list = [''en''], default_language = ''en''\<rparr>,
      CUSTOM_UI_SEARCH_ENGINES = [''Docs'', ''Blog'']\<rparr>"

text \<open>A capability that answers with the engine and the query it was given, and counts
  its calls in the world.\<close>

definition echo_search :: "(nat, string) capability" where
  "echo_search args w =
     (Inr (engine_id args, search_query args, ''url'', ''request'', ''response''), Suc w)"

text \<open>A capability that always raises the given exception.\<close>

definition raising_search :: "py_exception \<Rightarrow> (nat, string) capability" where
  "raising_search ex args w = (Inl ex, Suc w)"

definition quota_exceeded :: py_exception where
  "quota_exceeded =
     \<lparr>get_description = None, message = Some ''Quota exceeded'',
      str = ''429 Quota exceeded''\<rparr>"

text \<open>An exception of both classes at once.\<close>

definition throttled :: py_exception where
  "throttled =
     \<lparr>get_description = Some ''<p>Too many requests</p>'', message = Some ''Quota exceeded'',
      str = ''429 Too Many Requests''\<rparr>"

definition example_form :: "string \<Rightarrow> form" where
  "example_form selector =
     [''search_query'' \<mapsto> ''cats'', ''search_engine'' \<mapsto> selector, ''summary_model'' \<mapsto> '''']"

definition start :: "nat io" where
  "start = \<lparr>world = 0, calls = []\<rparr>"

section \<open>Facts about the builtins\<close>

lemma str_builtin_exception [simp]: "str (builtin_exception txt) = txt"
  by (simp add: builtin_exception_def)

lemma get_description_builtin_exception [simp]:
  "get_description (builtin_exception txt) = None"
  by (simp add: builtin_exception_def)

lemma message_builtin_exception [simp]: "message (builtin_exception txt) = None"
  by (simp add: builtin_exception_def)

lemma repr_not_Nil: "repr s \<noteq> []"
  by (simp add: repr_def Let_def)

lemma str_invalid_literal_not_Nil: "str (invalid_literal s) \<noteq> []"
  by (simp add: invalid_literal_def)

lemma str_exceeds_limit_not_Nil: "str (exceeds_limit n) \<noteq> []"
  by (simp add: exceeds_limit_def)

text \<open>Whatever \<^verbatim>\<open>int\<close> raises is a builtin exception with a text that is not empty.\<close>

lemma py_int_raises:
  assumes "py_int s = Inl ex"
  shows "get_description ex = None \<and> message ex = None \<and> str ex \<noteq> []"
proof -
  from assms have "ex = invalid_literal s \<or> (\<exists>n. ex = exceeds_limit n)"
    by (auto simp: py_int_def Let_def split: list.splits if_splits option.splits prod.splits)
  then show ?thesis
    by (auto simp: invalid_literal_def exceeds_limit_def)
qed

lemma py_int_Nil: "py_int [] = Inl (invalid_literal [])"
  by (simp add: py_int_def)

lemma getitem_raises:
  assumes "getitem xs i = Inl ex"
  shows "(ex = IndexError \<or> ex = IndexError_cannot_fit) \<and> \<not> python_index xs i"
  using assms by (auto simp: getitem_def python_index_def Let_def split: if_splits)

lemma getitem_out_of_range:
  assumes "\<not> python_index xs i"
  shows "getitem xs i = Inl IndexError \<or> getitem xs i = Inl IndexError_cannot_fit"
  using assms by (auto simp: getitem_def python_index_def Let_def)

lemma getitem_out_of_range_word:
  "\<not> python_index xs i \<Longrightarrow> - (2 ^ 63) \<le> i \<Longrightarrow> i < 2 ^ 63 \<Longrightarrow>
     getitem xs i = Inl IndexError"
  by (auto simp: getitem_def python_index_def Let_def)


lemma load_module_example:
  "load_module (module_consts.truncate example_globals) = Inr example_globals"
  by (simp add: load_module_def getitem_def example_globals_def module_consts.truncate_def
      module_consts.extend_def)

lemma str_IndexError: "str IndexError = ''list index out of range''"
  by (simp add: IndexError_def)

lemma IndexError_builtin:
  "str IndexError \<noteq> []" "get_description IndexError = None" "message IndexError = None"
  "str IndexError_cannot_fit \<noteq> []" "get_description IndexError_cannot_fit = None"
  "message IndexError_cannot_fit = None"
  by (simp_all add: IndexError_def IndexError_cannot_fit_def)

section \<open>Facts about the request handler\<close>

lemma Failure_render [simp]:
  "Failure m (render_template t kw) =
     (message_error kw = Some m \<and> message_success kw = None \<and> results kw = None \<and>
      summary kw = None \<and> request_url kw = None \<and> raw_request kw = None \<and>
      raw_response kw = None)"
  by (simp add: Failure_def render_template_def)

lemma Success_render [simp]:
  "Success q (a, b, c, d, e) (render_template t kw) =
     (message_error kw = None \<and> message_success kw = Some q \<and> results kw = Some a \<and>
      summary kw = Some b \<and> request_url kw = Some c \<and> raw_request kw = Some d \<and>
      raw_response kw = Some e)"
  by (simp add: Success_def render_template_def)

lemma no_kwargs_simps [simp]:
  "message_error no_kwargs = None" "message_success no_kwargs = None"
  "results no_kwargs = None" "summary no_kwargs = None" "request_url no_kwargs = None"
  "raw_request no_kwargs = None" "raw_response no_kwargs = None"
  by (simp_all add: no_kwargs_def)

lemma Failure_handle_exception:
  "Failure (assign_message_error ex ''An Unknown Error Occurred'') (handle_exception g ex)"
  by (simp add: handle_exception_def Let_def)

lemma view_no_query:
  assumes "request_form ''search_query'' = None \<or> request_form ''search_query'' = Some []"
  shows "search_genappbuilder g cap request_form s =
     (Inr (render_template ''search.html''
            (no_kwargs\<lparr>title := Some (nav_link.name (NAV_LINKS ! 1)),
                        nav_links := Some NAV_LINKS,
                        search_engines := Some (CUSTOM_UI_SEARCH_ENGINES g),
                        summary_models := Some (SUMMARY_MODELS g),
                        message_error := Some ''No query provided''\<rparr>)), s)"
  using assms by (auto simp: search_genappbuilder_def form_get_def Let_def)

lemma view_no_engine:
  assumes "request_form ''search_query'' = Some q" "q \<noteq> []"
    and "request_form ''search_engine'' = None \<or> request_form ''search_engine'' = Some []"
  shows "search_genappbuilder g cap request_form s =
     (Inr (render_template ''search.html''
            (no_kwargs\<lparr>title := Some (nav_link.name (NAV_LINKS ! 1)),
                        nav_links := Some NAV_LINKS,
                        search_engines := Some (CUSTOM_UI_SEARCH_ENGINES g),
                        summary_models := Some (SUMMARY_MODELS g),
                        message_error := Some ''No search engine selected''\<rparr>)), s)"
  using assms by (auto simp: search_genappbuilder_def form_get_def Let_def)

lemma view_int_raises:
  assumes "request_form ''search_query'' = Some q" "q \<noteq> []"
    and "request_form ''search_engine'' = Some sel" "sel \<noteq> []"
    and "py_int sel = Inl ex"
  shows "search_genappbuilder g cap request_form s = (Inl ex, s)"
  using assms by (simp add: search_genappbuilder_def form_get_def Let_def)

lemma view_getitem_raises:
  assumes "request_form ''search_query'' = Some q" "q \<noteq> []"
    and "request_form ''search_engine'' = Some sel"
    and "py_int sel = Inr i" "getitem (CUSTOM_UI_DATASTORE_IDS g) i = Inl ex"
  shows "search_genappbuilder g cap request_form s = (Inl ex, s)"
proof -
  from assms(4) have "sel \<noteq> []" by (auto simp: py_int_Nil)
  with assms show ?thesis by (simp add: search_genappbuilder_def form_get_def Let_def)
qed

lemma view_calls:
  assumes "request_form ''search_query'' = Some q" "q \<noteq> []"
    and "request_form ''search_engine'' = Some sel"
    and "py_int sel = Inr i" "getitem (CUSTOM_UI_DATASTORE_IDS g) i = Inr d"
    and "args = \<lparr>project_id = PROJECT_ID g, location = LOCATION g,
                  engine_id = datastore.engine_id d, search_query = q,
                  summary_model = request_form ''summary_model'',
                  summary_preamble = request_form ''summary_preamble''\<rparr>"
  shows "search_genappbuilder g cap request_form s =
     (case cap args (world s) of
        (Inl ex, w) \<Rightarrow> (Inl ex, \<lparr>world = w, calls = calls s @ [args]\<rparr>)
      | (Inr returned, w) \<Rightarrow>
          (Inr (render_template ''search.html''
               (no_kwargs\<lparr>title := Some (nav_link.name (NAV_LINKS ! 1)),
                           nav_links := Some NAV_LINKS,
                           search_engines := Some (CUSTOM_UI_SEARCH_ENGINES g),
                           summary_models := Some (SUMMARY_MODELS g),
                           message_success := Some q,
                           results := Some (fst returned),
                           summary := Some (fst (snd returned)),
                           request_url := Some (fst (snd (snd returned))),
                           raw_request := Some (fst (snd (snd (snd returned)))),
                           raw_response := Some (snd (snd (snd (snd returned))))\<rparr>)),
           \<lparr>world = w, calls = calls s @ [args]\<rparr>))"
proof -
  from assms(4) have "sel \<noteq> []" by (auto simp: py_int_Nil)
  with assms show ?thesis
    by (simp add: search_genappbuilder_def form_get_def Let_def call_capability_def
        split: prod.splits sum.splits)
qed

lemma handle_search_calls:
  assumes "request_form ''search_query'' = Some q" "q \<noteq> []"
    and "request_form ''search_engine'' = Some sel"
    and "py_int sel = Inr i" "getitem (CUSTOM_UI_DATASTORE_IDS g) i = Inr d"
    and "args = \<lparr>project_id = PROJECT_ID g, location = LOCATION g,
                  engine_id = datastore.engine_id d, search_query = q,
                  summary_model = request_form ''summary_model'',
                  summary_preamble = request_form ''summary_preamble''\<rparr>"
  shows "snd (handle_search g cap request_form s) =
           \<lparr>world = snd (cap args (world s)), calls = calls s @ [args]\<rparr>"
    and "fst (cap args (world s)) = Inr returned \<Longrightarrow>
           Success q returned (fst (handle_search g cap request_form s))"
    and "fst (cap args (world s)) = Inl ex \<Longrightarrow>
           fst (handle_search g cap request_form s) = handle_exception g ex"
  unfolding handle_search_def view_calls [OF assms]
  by (cases "cap args (world s)"; cases "fst (cap args (world s))"; cases returned;
      auto simp: Success_def render_template_def no_kwargs_def)+

lemma py_int_examples:
  "py_int ''0'' = Inr 0" "py_int ''1'' = Inr 1" "py_int ''-1'' = Inr (- 1)"
  "py_int ''2'' = Inr 2" "py_int ''abc'' = Inl (invalid_literal ''abc'')"
  by (simp_all add: py_int_def is_space_def is_digit_def digit_value_def)

lemma example_form_simps [simp]:
  "example_form sel ''search_query'' = Some ''cats''"
  "example_form sel ''search_engine'' = Some sel"
  "example_form sel ''summary_model'' = Some []"
  "example_form sel ''summary_preamble'' = None"
  by (simp_all add: example_form_def)

lemma example_getitem:
  "getitem (CUSTOM_UI_DATASTORE_IDS example_globals) 0 = Inr \<lparr>datastore.name = ''Docs'', engine_id = ''docs-engine''\<rparr>"
  "getitem (CUSTOM_UI_DATASTORE_IDS example_globals) 1 = Inr \<lparr>datastore.name = ''Blog'', engine_id = ''blog-engine''\<rparr>"
  "getitem (CUSTOM_UI_DATASTORE_IDS example_globals) (- 1) = Inr \<lparr>datastore.name = ''Blog'', engine_id = ''blog-engine''\<rparr>"
  "getitem (CUSTOM_UI_DATASTORE_IDS example_globals) 2 = Inl IndexError"
  by (simp_all add: getitem_def example_globals_def)

lemma handle_search_view_raises:
  "search_genappbuilder g cap request_form s = (Inl ex, s') \<Longrightarrow>
     handle_search g cap request_form s = (handle_exception g ex, s')"
  by (simp add: handle_search_def)

lemma assign_message_error_cases:
  "assign_message_error ex m =
     (case get_description ex of
        Some d \<Rightarrow> d
      | None \<Rightarrow> (case message ex of Some t \<Rightarrow> t | None \<Rightarrow> str ex))"
  by (simp add: assign_message_error_def isinstance_HTTPException_def
      isinstance_ResourceExhausted_def split: option.splits)

lemma view_returns_outcome:
  assumes "search_genappbuilder g cap request_form s = (Inr r, s')"
  shows "(\<exists>m. Failure m r) \<or> (\<exists>q returned. Success q returned r)"
proof (cases "request_form ''search_query'' = None \<or> request_form ''search_query'' = Some []")
  case True
  from assms view_no_query [of request_form, OF True, of g cap s]
  have "Failure ''No query provided'' r" by auto
  then show ?thesis by blast
next
  case False
  then obtain q where q: "request_form ''search_query'' = Some q" "q \<noteq> []"
    by (cases "request_form ''search_query''") auto
  show ?thesis
  proof (cases "request_form ''search_engine'' = None \<or> request_form ''search_engine'' = Some []")
    case True
    from assms view_no_engine [of request_form, OF q True, of g cap s]
    have "Failure ''No search engine selected'' r" by auto
    then show ?thesis by blast
  next
    case False
    then obtain sel where sel: "request_form ''search_engine'' = Some sel" "sel \<noteq> []"
      by (cases "request_form ''search_engine''") auto
    show ?thesis
    proof (cases "py_int sel")
      case (Inl ex)
      from assms view_int_raises [OF q sel Inl, of g cap s] show ?thesis by simp
    next
      case (Inr i)
      show ?thesis
      proof (cases "getitem (CUSTOM_UI_DATASTORE_IDS g) i")
        case (Inl ex)
        from assms view_getitem_raises [OF q sel(1) Inr Inl, of cap s] show ?thesis by simp
      next
        case d: (Inr d)
        obtain res w where c: "cap \<lparr>project_id = PROJECT_ID g, location = LOCATION g,
                  engine_id = datastore.engine_id d, search_query = q,
                  summary_model = request_form ''summary_model'',
                  summary_preamble = request_form ''summary_preamble''\<rparr> (world s) = (res, w)"
          by (cases "cap \<lparr>project_id = PROJECT_ID g, location = LOCATION g,
                  engine_id = datastore.engine_id d, search_query = q,
                  summary_model = request_form ''summary_model'',
                  summary_preamble = request_form ''summary_preamble''\<rparr> (world s)")
        from assms view_calls [OF q sel(1) Inr d refl, of cap s] c
        obtain returned where "res = Inr returned" "Success q returned r"
          by (cases res; cases "projr res") (auto simp: Success_def render_template_def no_kwargs_def)
        then show ?thesis by blast
      qed
    qed
  qed
qed

lemma fst_handle_search_calls:
  assumes "request_form ''search_query'' = Some q" "q \<noteq> []"
    and "request_form ''search_engine'' = Some sel"
    and "py_int sel = Inr i" "getitem (CUSTOM_UI_DATASTORE_IDS g) i = Inr d"
    and "args = \<lparr>project_id = PROJECT_ID g, location = LOCATION g,
                  engine_id = datastore.engine_id d, search_query = q,
                  summary_model = request_form ''summary_model'',
                  summary_preamble = request_form ''summary_preamble''\<rparr>"
  shows "fst (handle_search g cap request_form s) =
     (case fst (cap args (world s)) of
        Inl ex \<Rightarrow> handle_exception g ex
      | Inr returned \<Rightarrow>
          render_template ''search.html''
               (no_kwargs\<lparr>title := Some (nav_link.name (NAV_LINKS ! 1)),
                           nav_links := Some NAV_LINKS,
                           search_engines := Some (CUSTOM_UI_SEARCH_ENGINES g),
                           summary_models := Some (SUMMARY_MODELS g),
                           message_success := Some q,
                           results := Some (fst returned),
                           summary := Some (fst (snd returned)),
                           request_url := Some (fst (snd (snd returned))),
                           raw_request := Some (fst (snd (snd (snd returned)))),
                           raw_response := Some (snd (snd (snd (snd returned))))\<rparr>))"
  unfolding handle_search_def view_calls [OF assms]
  by (cases "cap args (world s)"; cases "fst (cap args (world s))") auto

lemma fst_handle_search_world:
  fixes cap :: "('w, 'v) capability"
  assumes "\<forall>args. fst (cap args (world s)) = fst (cap args (world s'))"
  shows "fst (handle_search g cap request_form s) = fst (handle_search g cap request_form s')"
proof (cases "request_form ''search_query'' = None \<or> request_form ''search_query'' = Some []")
  case True
  show ?thesis
    by (simp add: handle_search_def view_no_query [of request_form, OF True])
next
  case False
  then obtain q where q: "request_form ''search_query'' = Some q" "q \<noteq> []"
    by (cases "request_form ''search_query''") auto
  show ?thesis
  proof (cases "request_form ''search_engine'' = None \<or> request_form ''search_engine'' = Some []")
    case True
    show ?thesis
      by (simp add: handle_search_def view_no_engine [of request_form, OF q True])
  next
    case False
    then obtain sel where sel: "request_form ''search_engine'' = Some sel" "sel \<noteq> []"
      by (cases "request_form ''search_engine''") auto
    show ?thesis
    proof (cases "py_int sel")
      case (Inl ex)
      show ?thesis by (simp add: handle_search_def view_int_raises [OF q sel Inl])
    next
      case (Inr i)
      show ?thesis
      proof (cases "getitem (CUSTOM_UI_DATASTORE_IDS g) i")
        case (Inl ex)
        show ?thesis by (simp add: handle_search_def view_getitem_raises [OF q sel(1) Inr Inl])
      next
        case d: (Inr d)
        show ?thesis
          using assms by (simp add: fst_handle_search_calls [OF q sel(1) Inr d refl])
      qed
    qed
  qed
qed

lemma handle_search_capability_raises:
  assumes "request_form ''search_query'' = Some q" "q \<noteq> []"
    and "request_form ''search_engine'' = Some sel"
    and "py_int sel = Inr i" "getitem (CUSTOM_UI_DATASTORE_IDS g) i = Inr d"
    and "args = \<lparr>project_id = PROJECT_ID g, location = LOCATION g,
                  engine_id = datastore.engine_id d, search_query = q,
                  summary_model = request_form ''summary_model'',
                  summary_preamble = request_form ''summary_preamble''\<rparr>"
    and "fst (cap args (world s)) = Inl ex"
  shows "fst (handle_search g cap request_form s) = handle_exception g ex"
  by (simp add: fst_handle_search_calls [OF assms(1-6)] assms(7))

lemma example_raising:
  "fst (handle_search example_globals (raising_search ex) (example_form ''0'') start) =
     handle_exception example_globals ex"
proof -
  have ne: "''cats'' \<noteq> []" by simp
  show ?thesis
    by (rule handle_search_capability_raises
        [OF example_form_simps(1) ne example_form_simps(2) py_int_examples(1) example_getitem(1) refl])
      (simp add: raising_search_def)
qed

section \<open>The claims\<close>

text \<open>
  Claim C1. When \<^verbatim>\<open>search_query\<close> is not empty and \<^verbatim>\<open>search_engine\<close> resolves to an
  entry of the directory, \<^verbatim>\<open>handle_search\<close> calls the search capability exactly once: the
  log of calls grows by the one call whose arguments are the project and location of the
  process, the engine identifier of the entry, the query as submitted, and the
  \<^verbatim>\<open>summary_model\<close> and \<^verbatim>\<open>summary_preamble\<close> fields as the form has them (\<open>None\<close> for an absent
  field, \<open>Some []\<close> for an empty one). When that call returns five values, the outcome
  is the success carrying exactly these values and the query as \<^verbatim>\<open>message_success\<close>.
\<close>

theorem handle_search_dispatches_once:
  assumes "request_form ''search_query'' = Some q" and "q \<noteq> []"
    and "request_form ''search_engine'' = Some sel"
    and "py_int sel = Inr i" and "getitem (CUSTOM_UI_DATASTORE_IDS g) i = Inr d"
    and "args = \<lparr>project_id = PROJECT_ID g, location = LOCATION g,
                  engine_id = datastore.engine_id d, search_query = q,
                  summary_model = request_form ''summary_model'',
                  summary_preamble = request_form ''summary_preamble''\<rparr>"
  shows "calls (snd (handle_search g cap request_form s)) = calls s @ [args] \<and>
         world (snd (handle_search g cap request_form s)) = snd (cap args (world s)) \<and>
         (\<forall>returned. fst (cap args (world s)) = Inr returned \<longrightarrow>
            Success q returned (fst (handle_search g cap request_form s)))"
proof -
  have "snd (handle_search g cap request_form s) =
          \<lparr>world = snd (cap args (world s)), calls = calls s @ [args]\<rparr>"
    by (rule handle_search_calls(1) [OF assms])
  moreover have "Success q returned (fst (handle_search g cap request_form s))"
    if "fst (cap args (world s)) = Inr returned" for returned
    using that by (rule handle_search_calls(2) [OF assms])
  ultimately show ?thesis by simp
qed

theorem handle_search_dispatches_once_witness:
  "py_int ''1'' = Inr 1 \<and>
   calls (snd (handle_search example_globals echo_search (example_form ''1'') start)) =
     [\<lparr>project_id = ''my-project'', location = ''global'', engine_id = ''blog-engine'',
       search_query = ''cats'', summary_model = Some [], summary_preamble = None\<rparr>] \<and>
   world (snd (handle_search example_globals echo_search (example_form ''1'') start)) = 1 \<and>
   Success ''cats'' (''blog-engine'', ''cats'', ''url'', ''request'', ''response'')
     (fst (handle_search example_globals echo_search (example_form ''1'') start))"
proof -
  have args: "\<lparr>project_id = ''my-project'', location = ''global'', engine_id = ''blog-engine'',
       search_query = ''cats'', summary_model = Some [], summary_preamble = None\<rparr> =
     \<lparr>project_id = PROJECT_ID example_globals, location = LOCATION example_globals,
       engine_id = datastore.engine_id \<lparr>datastore.name = ''Blog'', engine_id = ''blog-engine''\<rparr>,
       search_query = ''cats'', summary_model = example_form ''1'' ''summary_model'',
       summary_preamble = example_form ''1'' ''summary_preamble''\<rparr>"
    by (simp add: example_globals_def)
  have "''cats'' \<noteq> []" by simp
  from handle_search_dispatches_once
    [OF example_form_simps(1) this example_form_simps(2) py_int_examples(2) example_getitem(2) args,
     of echo_search start]
  show ?thesis
    by (simp add: py_int_examples echo_search_def start_def)
qed

text \<open>
  Claim C2. When \<^verbatim>\<open>search_query\<close> is absent or empty, the outcome is the failure
  ``No query provided'', and the request leaves the world and the log of calls as they
  were: the search capability is not called.
\<close>

theorem handle_search_no_query:
  assumes "request_form ''search_query'' = None \<or> request_form ''search_query'' = Some []"
  shows "Failure ''No query provided'' (fst (handle_search g cap request_form s)) \<and>
         snd (handle_search g cap request_form s) = s \<and>
         calls (snd (handle_search g cap request_form s)) = calls s"
  by (simp add: handle_search_def view_no_query [of request_form, OF assms])

theorem handle_search_no_query_witness:
  "Failure ''No query provided''
     (fst (handle_search example_globals echo_search [''search_engine'' \<mapsto> ''0''] start)) \<and>
   Failure ''No query provided''
     (fst (handle_search example_globals echo_search
            [''search_query'' \<mapsto> [], ''search_engine'' \<mapsto> ''0''] start)) \<and>
   calls (snd (handle_search example_globals echo_search [''search_engine'' \<mapsto> ''0''] start)) = []"
  using handle_search_no_query [of "[''search_engine'' \<mapsto> ''0'']" example_globals echo_search start]
    handle_search_no_query [of "[''search_query'' \<mapsto> [], ''search_engine'' \<mapsto> ''0'']"
      example_globals echo_search start]
  by (simp add: start_def)

text \<open>
  Claim C3. When \<^verbatim>\<open>search_query\<close> is not empty and \<^verbatim>\<open>search_engine\<close> is absent or empty,
  the outcome is the failure ``No search engine selected'' and the capability is not
  called; when both fields are absent or empty, the query is tested first and the outcome
  is the failure ``No query provided''.
\<close>

theorem handle_search_no_engine:
  "(request_form ''search_query'' = Some q \<and> q \<noteq> [] \<and>
    (request_form ''search_engine'' = None \<or> request_form ''search_engine'' = Some []) \<longrightarrow>
      Failure ''No search engine selected'' (fst (handle_search g cap request_form s)) \<and>
      snd (handle_search g cap request_form s) = s) \<and>
   ((request_form ''search_query'' = None \<or> request_form ''search_query'' = Some []) \<and>
    (request_form ''search_engine'' = None \<or> request_form ''search_engine'' = Some []) \<longrightarrow>
      Failure ''No query provided'' (fst (handle_search g cap request_form s)) \<and>
      snd (handle_search g cap request_form s) = s)"
proof (intro conjI impI)
  assume a: "request_form ''search_query'' = Some q \<and> q \<noteq> [] \<and>
    (request_form ''search_engine'' = None \<or> request_form ''search_engine'' = Some [])"
  then have v: "search_genappbuilder g cap request_form s =
     (Inr (render_template ''search.html''
            (no_kwargs\<lparr>title := Some (nav_link.name (NAV_LINKS ! 1)),
                        nav_links := Some NAV_LINKS,
                        search_engines := Some (CUSTOM_UI_SEARCH_ENGINES g),
                        summary_models := Some (SUMMARY_MODELS g),
                        message_error := Some ''No search engine selected''\<rparr>)), s)"
    by (intro view_no_engine) auto
  show "Failure ''No search engine selected'' (fst (handle_search g cap request_form s))"
    by (simp add: handle_search_def v)
  show "snd (handle_search g cap request_form s) = s"
    by (simp add: handle_search_def v)
next
  assume a: "(request_form ''search_query'' = None \<or> request_form ''search_query'' = Some []) \<and>
    (request_form ''search_engine'' = None \<or> request_form ''search_engine'' = Some [])"
  then have q: "request_form ''search_query'' = None \<or> request_form ''search_query'' = Some []"
    by simp
  show "Failure ''No query provided'' (fst (handle_search g cap request_form s))"
    by (simp add: handle_search_def view_no_query [of request_form, OF q])
  show "snd (handle_search g cap request_form s) = s"
    by (simp add: handle_search_def view_no_query [of request_form, OF q])
qed

theorem handle_search_no_engine_witness:
  "Failure ''No search engine selected''
     (fst (handle_search example_globals echo_search [''search_query'' \<mapsto> ''cats''] start)) \<and>
   Failure ''No search engine selected''
     (fst (handle_search example_globals echo_search (example_form []) start)) \<and>
   snd (handle_search example_globals echo_search (example_form []) start) = start \<and>
   Failure ''No query provided''
     (fst (handle_search example_globals echo_search Map.empty start)) \<and>
   Failure ''No query provided''
     (fst (handle_search example_globals echo_search
            [''search_query'' \<mapsto> [], ''search_engine'' \<mapsto> []] start))"
  using handle_search_no_engine [of "[''search_query'' \<mapsto> ''cats'']" "''cats''" example_globals echo_search start]
    handle_search_no_engine [of "example_form []" "''cats''" example_globals echo_search start]
    handle_search_no_engine [of Map.empty "[]" example_globals echo_search start]
    handle_search_no_engine [of "[''search_query'' \<mapsto> [], ''search_engine'' \<mapsto> []]" "[]"
      example_globals echo_search start]
  by simp

text \<open>
  Claim C4, as amended. A selector is refused when \<^verbatim>\<open>int\<close> raises on it or when the
  integer it denotes is no index of the directory in Python's sense, that is, lies
  outside \<open>[-n, n)\<close> for a directory of \<open>n\<close> entries. For every such selector the outcome is a
  failure with a message that is not empty, and the capability is not called.
\<close>

theorem handle_search_bad_selector:
  assumes "sel = form_get request_form ''search_engine'' []"
    and "isl (py_int sel) \<or>
         (\<exists>i. py_int sel = Inr i \<and> \<not> python_index (CUSTOM_UI_DATASTORE_IDS g) i)"
  shows "\<exists>m. m \<noteq> [] \<and> Failure m (fst (handle_search g cap request_form s)) \<and>
             snd (handle_search g cap request_form s) = s"
proof (cases "request_form ''search_query'' = None \<or> request_form ''search_query'' = Some []")
  case True
  have "Failure ''No query provided'' (fst (handle_search g cap request_form s)) \<and>
        snd (handle_search g cap request_form s) = s"
    by (simp add: handle_search_def view_no_query [of request_form, OF True])
  then show ?thesis by (intro exI [of _ "''No query provided''"]) simp
next
  case False
  then obtain q where q: "request_form ''search_query'' = Some q" "q \<noteq> []"
    by (cases "request_form ''search_query''") auto
  show ?thesis
  proof (cases "request_form ''search_engine'' = None \<or> request_form ''search_engine'' = Some []")
    case True
    have "Failure ''No search engine selected'' (fst (handle_search g cap request_form s)) \<and>
          snd (handle_search g cap request_form s) = s"
      by (simp add: handle_search_def view_no_engine [of request_form, OF q True])
    then show ?thesis by (intro exI [of _ "''No search engine selected''"]) simp
  next
    case False
    then have sel: "request_form ''search_engine'' = Some sel" "sel \<noteq> []"
      using assms(1) by (cases "request_form ''search_engine''"; simp add: form_get_def)+
    from assms(2) obtain ex where
      ex: "search_genappbuilder g cap request_form s = (Inl ex, s)" "str ex \<noteq> []"
        "get_description ex = None" "message ex = None"
    proof
      assume "isl (py_int sel)"
      then obtain ex where r: "py_int sel = Inl ex" by (cases "py_int sel") auto
      from view_int_raises [OF q sel r, where g = g and cap = cap and s = s] py_int_raises [OF r] that
      show thesis by blast
    next
      assume "\<exists>i. py_int sel = Inr i \<and> \<not> python_index (CUSTOM_UI_DATASTORE_IDS g) i"
      then obtain i where i: "py_int sel = Inr i"
        and "\<not> python_index (CUSTOM_UI_DATASTORE_IDS g) i" by blast
      then obtain e where r: "getitem (CUSTOM_UI_DATASTORE_IDS g) i = Inl e"
        and e: "e = IndexError \<or> e = IndexError_cannot_fit"
        using getitem_out_of_range [of "CUSTOM_UI_DATASTORE_IDS g" i] by blast
      from e have "str e \<noteq> []" "get_description e = None" "message e = None"
        using IndexError_builtin by auto
      with view_getitem_raises [OF q sel(1) i r, where cap = cap and s = s] that [of e]
      show thesis by blast
    qed
    then have "Failure (str ex) (fst (handle_search g cap request_form s)) \<and>
        snd (handle_search g cap request_form s) = s"
      using Failure_handle_exception [of ex g]
      by (simp add: handle_search_view_raises [OF ex(1)] assign_message_error_cases)
    with ex(2) show ?thesis by blast
  qed
qed

theorem handle_search_bad_selector_witness:
  "isl (py_int ''abc'') \<and>
   py_int ''2'' = Inr 2 \<and> \<not> python_index (CUSTOM_UI_DATASTORE_IDS example_globals) 2 \<and>
   (\<exists>m. m \<noteq> [] \<and> Failure m (fst (handle_search example_globals echo_search (example_form ''abc'') start)) \<and>
        snd (handle_search example_globals echo_search (example_form ''abc'') start) = start) \<and>
   (\<exists>m. m \<noteq> [] \<and> Failure m (fst (handle_search example_globals echo_search (example_form ''2'') start)) \<and>
        snd (handle_search example_globals echo_search (example_form ''2'') start) = start)"
proof -
  have a: "''abc'' = form_get (example_form ''abc'') ''search_engine'' []"
    and b: "''2'' = form_get (example_form ''2'') ''search_engine'' []"
    by (simp_all add: form_get_def)
  have c: "isl (py_int ''abc'')" by (simp add: py_int_examples)
  have d: "\<not> python_index (CUSTOM_UI_DATASTORE_IDS example_globals) 2"
    by (simp add: python_index_def example_globals_def)
  from handle_search_bad_selector [OF a, of example_globals echo_search start]
    handle_search_bad_selector [OF b, of example_globals echo_search start] c d
  show ?thesis by (simp add: py_int_examples)
qed

text \<open>
  Claim C4, as stated, fails: the selector \<^verbatim>\<open>-1\<close> is out of range as a zero-based index
  into a directory of two entries, and yet the capability is called, with the engine of
  the last entry, and the outcome is a success.
\<close>

theorem negative_selector_counterexample:
  "py_int ''-1'' = Inr (- 1) \<and>
   \<not> zero_based_index (CUSTOM_UI_DATASTORE_IDS example_globals) (- 1) \<and>
   message_error (snd (fst (handle_search example_globals echo_search (example_form ''-1'') start))) = None \<and>
   message_success (snd (fst (handle_search example_globals echo_search (example_form ''-1'') start))) = Some ''cats'' \<and>
   calls (snd (handle_search example_globals echo_search (example_form ''-1'') start)) =
     [\<lparr>project_id = ''my-project'', location = ''global'', engine_id = ''blog-engine'',
       search_query = ''cats'', summary_model = Some [], summary_preamble = None\<rparr>]"
proof -
  have args: "\<lparr>project_id = ''my-project'', location = ''global'', engine_id = ''blog-engine'',
       search_query = ''cats'', summary_model = Some [], summary_preamble = None\<rparr> =
     \<lparr>project_id = PROJECT_ID example_globals, location = LOCATION example_globals,
       engine_id = datastore.engine_id \<lparr>datastore.name = ''Blog'', engine_id = ''blog-engine''\<rparr>,
       search_query = ''cats'', summary_model = example_form ''-1'' ''summary_model'',
       summary_preamble = example_form ''-1'' ''summary_preamble''\<rparr>"
    by (simp add: example_globals_def)
  have ne: "''cats'' \<noteq> []" by simp
  note h = handle_search_calls
    [OF example_form_simps(1) ne example_form_simps(2) py_int_examples(3) example_getitem(3) args]
  have "fst (echo_search \<lparr>project_id = ''my-project'', location = ''global'', engine_id = ''blog-engine'',
       search_query = ''cats'', summary_model = Some [], summary_preamble = None\<rparr> (world start)) =
      Inr (''blog-engine'', ''cats'', ''url'', ''request'', ''response'')"
    by (simp add: echo_search_def)
  from h(2) [where cap = echo_search and s = start, OF this] h(1) [of echo_search start]
  show ?thesis
    by (simp add: py_int_examples zero_based_index_def Success_def start_def)
qed



text \<open>
  Claim C7. Every request ends in an outcome that is a failure or a success, and every
  exception the view raises, whether from resolving the selector or from the capability,
  is turned into the failure whose message \<^verbatim>\<open>handle_exception\<close> derives from it.
\<close>

theorem handle_search_always_outcome:
  fixes cap :: "('w, 'v) capability"
  shows "((\<exists>m. Failure m (fst (handle_search g cap request_form s))) \<or>
          (\<exists>q returned. Success q returned (fst (handle_search g cap request_form s)))) \<and>
         (\<forall>ex s'. search_genappbuilder g cap request_form s = (Inl ex, s') \<longrightarrow>
            handle_search g cap request_form s = (handle_exception g ex, s') \<and>
            Failure (assign_message_error ex ''An Unknown Error Occurred'')
              (fst (handle_search g cap request_form s)))"
proof (intro conjI allI impI)
  obtain res s' where v: "search_genappbuilder g cap request_form s = (res, s')"
    by (cases "search_genappbuilder g cap request_form s")
  show "(\<exists>m. Failure m (fst (handle_search g cap request_form s))) \<or>
          (\<exists>q returned. Success q returned (fst (handle_search g cap request_form s)))"
  proof (cases res)
    case (Inl ex)
    with v have "fst (handle_search g cap request_form s) = handle_exception g ex"
      by (simp add: handle_search_def)
    with Failure_handle_exception [of ex g] show ?thesis by metis
  next
    case (Inr r)
    with v have "fst (handle_search g cap request_form s) = r"
      by (simp add: handle_search_def)
    with view_returns_outcome [of g cap request_form s r s'] v Inr show ?thesis by simp
  qed
next
  fix ex s'
  assume a: "search_genappbuilder g cap request_form s = (Inl ex, s')"
  show "handle_search g cap request_form s = (handle_exception g ex, s')"
    by (rule handle_search_view_raises [OF a])
  show "Failure (assign_message_error ex ''An Unknown Error Occurred'')
          (fst (handle_search g cap request_form s))"
    by (simp add: handle_search_view_raises [OF a] Failure_handle_exception)
qed

theorem handle_search_always_outcome_witness:
  "search_genappbuilder example_globals echo_search (example_form ''abc'') start =
     (Inl (invalid_literal ''abc''), start) \<and>
   handle_search example_globals echo_search (example_form ''abc'') start =
     (handle_exception example_globals (invalid_literal ''abc''), start) \<and>
   Failure (''invalid literal for int() with base 10: '' @ [CHR 0x27] @ ''abc'' @ [CHR 0x27])
     (fst (handle_search example_globals echo_search (example_form ''abc'') start))"
proof -
  have ne: "''cats'' \<noteq> []" "''abc'' \<noteq> []" by simp_all
  have v: "search_genappbuilder example_globals echo_search (example_form ''abc'') start =
     (Inl (invalid_literal ''abc''), start)"
    by (rule view_int_raises
      [OF example_form_simps(1) ne(1) example_form_simps(2) ne(2) py_int_examples(5)])
  have t: "assign_message_error (invalid_literal ''abc'') ''An Unknown Error Occurred'' =
      (''invalid literal for int() with base 10: '' @ [CHR 0x27] @ ''abc'' @ [CHR 0x27])"
    by (simp add: assign_message_error_cases invalid_literal_def repr_def repr_char_def
        printable_def Let_def)
  from handle_search_always_outcome [of example_globals echo_search "example_form ''abc''" start]
  have "search_genappbuilder example_globals echo_search (example_form ''abc'') start =
          (Inl (invalid_literal ''abc''), start) \<longrightarrow>
        handle_search example_globals echo_search (example_form ''abc'') start =
          (handle_exception example_globals (invalid_literal ''abc''), start) \<and>
        Failure (assign_message_error (invalid_literal ''abc'') ''An Unknown Error Occurred'')
          (fst (handle_search example_globals echo_search (example_form ''abc'') start))"
    by blast
  with v show ?thesis unfolding t by blast
qed

subsection \<open>The derivation of the message\<close>

text \<open>
  The three levels the code has. When the capability raises a quota exception (one that
  is not also an HTTP exception, which the first test would take), the message of the
  failure is the exception's \<^verbatim>\<open>message\<close> field as it is. For every exception the message
  is chosen by the first test that holds: the HTTP description, else the quota message,
  else the text of the exception.
\<close>

lemma handle_search_first_match:
  fixes cap :: "('w, 'v) capability"
  assumes "request_form ''search_query'' = Some q" and "q \<noteq> []"
    and "request_form ''search_engine'' = Some sel"
    and "py_int sel = Inr i" and "getitem (CUSTOM_UI_DATASTORE_IDS g) i = Inr d"
    and "args = \<lparr>project_id = PROJECT_ID g, location = LOCATION g,
                  engine_id = datastore.engine_id d, search_query = q,
                  summary_model = request_form ''summary_model'',
                  summary_preamble = request_form ''summary_preamble''\<rparr>"
    and "fst (cap args (world s)) = Inl ex"
  shows "(\<forall>t. message ex = Some t \<and> get_description ex = None \<longrightarrow>
            Failure t (fst (handle_search g cap request_form s))) \<and>
         Failure (case get_description ex of
                    Some d \<Rightarrow> d
                  | None \<Rightarrow> (case message ex of Some t \<Rightarrow> t | None \<Rightarrow> str ex))
           (fst (handle_search g cap request_form s)) \<and>
         (\<forall>e. Failure (case get_description e of
                          Some d \<Rightarrow> d
                        | None \<Rightarrow> (case message e of Some t \<Rightarrow> t | None \<Rightarrow> str e))
                 (handle_exception g e :: 'v response))"
proof -
  have h: "fst (handle_search g cap request_form s) = handle_exception g ex"
    by (rule handle_search_capability_raises
        [where request_form = request_form and cap = cap and s = s, OF assms])
  have f: "Failure (case get_description e of
                      Some d \<Rightarrow> d
                    | None \<Rightarrow> (case message e of Some t \<Rightarrow> t | None \<Rightarrow> str e))
             (handle_exception g e :: 'v response)" for e
    using Failure_handle_exception [of e g] by (simp add: assign_message_error_cases)
  from f [of ex] have "Failure t (handle_exception g ex :: 'v response)"
    if "message ex = Some t \<and> get_description ex = None" for t
    using that by simp
  with f h show ?thesis by simp
qed

lemma handle_search_first_match_examples:
  "Failure ''Quota exceeded''
     (fst (handle_search example_globals (raising_search quota_exceeded) (example_form ''0'') start)) \<and>
   Failure ''<p>Too many requests</p>''
     (fst (handle_search example_globals (raising_search throttled) (example_form ''0'') start)) \<and>
   Failure ''boom''
     (fst (handle_search example_globals (raising_search (builtin_exception ''boom''))
            (example_form ''0'') start))"
proof -
  have ne: "''cats'' \<noteq> []" by simp
  have r: "fst (raising_search ex
      \<lparr>project_id = PROJECT_ID example_globals, location = LOCATION example_globals,
        engine_id = datastore.engine_id \<lparr>datastore.name = ''Docs'', engine_id = ''docs-engine''\<rparr>,
        search_query = ''cats'', summary_model = example_form ''0'' ''summary_model'',
        summary_preamble = example_form ''0'' ''summary_preamble''\<rparr> (world start)) = Inl ex" for ex
    by (simp add: raising_search_def)
  have t: "Failure (case get_description ex of
                    Some d \<Rightarrow> d
                  | None \<Rightarrow> (case message ex of Some t \<Rightarrow> t | None \<Rightarrow> str ex))
           (fst (handle_search example_globals (raising_search ex) (example_form ''0'') start))" for ex
    using handle_search_first_match
      [where request_form = "example_form ''0''" and cap = "raising_search ex" and s = start,
       OF example_form_simps(1) ne example_form_simps(2) py_int_examples(1) example_getitem(1)
         refl r]
    by blast
  from t [of quota_exceeded] t [of throttled] t [of "builtin_exception ''boom''"]
  show ?thesis
    by (simp add: quota_exceeded_def throttled_def)
qed

text \<open>
  The code against the specification's derivation: they agree on every exception that
  carries any information, and on an exception that carries none the code gives the empty
  text.
\<close>

lemma handle_exception_meets_specification:
  assumes "get_description ex \<noteq> None \<or> message ex \<noteq> None \<or> str ex \<noteq> []"
  shows "Failure (specified_message ex) (handle_exception g ex)"
  using assms Failure_handle_exception [of ex g]
  by (auto simp: assign_message_error_cases specified_message_def split: option.splits)

lemma handle_exception_no_information:
  assumes "get_description ex = None" and "message ex = None" and "str ex = []"
  shows "Failure [] (handle_exception g ex)"
    and "specified_message ex = ''An Unknown Error Occurred''"
  using assms Failure_handle_exception [of ex g]
  by (simp_all add: assign_message_error_cases specified_message_def)

text \<open>
  Claim C5 has the derivation end in the fixed text ``An Unknown Error Occurred''. The
  code never reaches that fourth level: for a capability raising an exception of neither
  class with an empty text, the specified message is the fixed text, and the message of
  the failure the request ends in is the empty text.
\<close>

theorem message_precedence_lacks_fallback:
  "specified_message (builtin_exception []) = ''An Unknown Error Occurred'' \<and>
   Failure []
     (fst (handle_search example_globals (raising_search (builtin_exception []))
            (example_form ''0'') start)) \<and>
   \<not> Failure (specified_message (builtin_exception []))
     (fst (handle_search example_globals (raising_search (builtin_exception []))
            (example_form ''0'') start))"
proof -
  have "Failure [] (handle_exception example_globals (builtin_exception []) :: string response)"
    by (rule handle_exception_no_information(1)) simp_all
  then show ?thesis
    by (simp add: example_raising Failure_def specified_message_def)
qed

text \<open>
  Claim C6 asks for the message ``An Unknown Error Occurred'' when the exception carries
  no message at all. The code assigns that text first and then overwrites it on every
  branch: for an exception of neither class whose text is empty, the message of the
  failure is the empty text.
\<close>

theorem unknown_error_fallback_unused:
  "message_error (snd (fst (handle_search example_globals (raising_search (builtin_exception []))
     (example_form ''0'') start))) = Some [] \<and>
   message_error (snd (fst (handle_search example_globals (raising_search (builtin_exception []))
     (example_form ''0'') start))) \<noteq> Some ''An Unknown Error Occurred''"
proof -
  have "Failure [] (handle_exception example_globals (builtin_exception []) :: string response)"
    using Failure_handle_exception [of "builtin_exception []" example_globals]
    by (simp add: assign_message_error_cases)
  then show ?thesis
    by (simp add: example_raising Failure_def)
qed

text \<open>
  Claim C8. With a deterministic capability the outcome of a request does not depend on
  the state it starts in: two requests with the same form have the same outcome, also
  when the second starts in the state the first has left. The globals of the module are
  read and never written; a request passes on nothing but the world and the log of calls.
\<close>

theorem handle_search_deterministic:
  fixes cap :: "('w, 'v) capability"
  assumes "deterministic cap"
  shows "fst (handle_search g cap request_form s') = fst (handle_search g cap request_form s) \<and>
         fst (handle_search g cap request_form (snd (handle_search g cap request_form s))) =
           fst (handle_search g cap request_form s)"
proof -
  have "\<forall>args. fst (cap args (world a)) = fst (cap args (world b))" for a b :: "'w io"
    using assms by (simp add: deterministic_def)
  then show ?thesis
    using fst_handle_search_world [of cap] by blast
qed

theorem handle_search_deterministic_witness:
  "deterministic echo_search \<and>
   fst (handle_search example_globals echo_search (example_form ''0'')
         (snd (handle_search example_globals echo_search (example_form ''0'') start))) =
   fst (handle_search example_globals echo_search (example_form ''0'') start) \<and>
   snd (handle_search example_globals echo_search (example_form ''0'') start) \<noteq> start"
proof -
  have d: "deterministic echo_search"
    by (simp add: deterministic_def echo_search_def)
  have args: "\<lparr>project_id = ''my-project'', location = ''global'', engine_id = ''docs-engine'',
       search_query = ''cats'', summary_model = Some [], summary_preamble = None\<rparr> =
     \<lparr>project_id = PROJECT_ID example_globals, location = LOCATION example_globals,
       engine_id = datastore.engine_id \<lparr>datastore.name = ''Docs'', engine_id = ''docs-engine''\<rparr>,
       search_query = ''cats'', summary_model = example_form ''0'' ''summary_model'',
       summary_preamble = example_form ''0'' ''summary_preamble''\<rparr>"
    by (simp add: example_globals_def)
  have ne: "''cats'' \<noteq> []" by simp
  have "snd (handle_search example_globals echo_search (example_form ''0'') start) \<noteq> start"
    by (simp add: start_def handle_search_calls(1)
      [OF example_form_simps(1) ne example_form_simps(2) py_int_examples(1) example_getitem(1) args])
  with d handle_search_deterministic [OF d, of example_globals "example_form ''0''"  _ start]
  show ?thesis by blast
qed

text \<open>
  Claim C10. For an exception of neither class the message of the failure is the text of
  the exception, empty or not, both for \<^verbatim>\<open>handle_exception\<close> itself and for a request
  whose view raised it. What the chain of tests assigns never depends on the value
  \<^verbatim>\<open>message_error\<close> had before: the text assigned first is overwritten on every path.
\<close>

theorem handle_exception_generic_text:
  fixes cap :: "('w, 'v) capability"
  assumes "get_description ex = None" and "message ex = None"
  shows "Failure (str ex) (handle_exception g ex :: 'v response) \<and>
         (\<forall>s'. search_genappbuilder g cap request_form s = (Inl ex, s') \<longrightarrow>
            Failure (str ex) (fst (handle_search g cap request_form s))) \<and>
         (\<forall>e before before'.
            assign_message_error e before = assign_message_error e before')"
proof -
  have f: "Failure (str ex) (handle_exception g ex :: 'v response)"
    using Failure_handle_exception [of ex g] assms by (simp add: assign_message_error_cases)
  moreover have "Failure (str ex) (fst (handle_search g cap request_form s))"
    if "search_genappbuilder g cap request_form s = (Inl ex, s')" for s'
    using f by (simp add: handle_search_view_raises [OF that])
  moreover have "assign_message_error e before = assign_message_error e before'"
    for e before before'
    by (simp add: assign_message_error_cases)
  ultimately show ?thesis by blast
qed

theorem handle_exception_generic_text_witness:
  "Failure [] (handle_exception example_globals (builtin_exception []) :: string response) \<and>
   Failure ''list index out of range''
     (fst (handle_search example_globals echo_search (example_form ''2'') start))"
proof -
  have ne: "''cats'' \<noteq> []" by simp
  have v: "search_genappbuilder example_globals echo_search (example_form ''2'') start =
      (Inl IndexError, start)"
    by (rule view_getitem_raises
        [OF example_form_simps(1) ne example_form_simps(2) py_int_examples(4) example_getitem(4)])
  have n: "get_description (builtin_exception m) = None" "message (builtin_exception m) = None"
    for m by simp_all
  from handle_exception_generic_text [OF n, of "[]" example_globals echo_search]
    handle_exception_generic_text [OF n, of "''list index out of range''" example_globals echo_search
      "example_form ''2''" start] v
  show ?thesis by (simp add: IndexError_def)
qed

end
